theory Spec2Isabelle
  imports Complex_Main "HOL-Library.Word"
begin

section \<open>Engine types used by the seed subsystem\<close>

text \<open>
  The subsystem (AegisSeedSubsystem.h / AegisSeedSubsystem.cpp) is written against the
  Unreal Engine core types. An \<open>FString\<close> is the sequence of its \<open>TCHAR\<close> code units
  (16 bits wide on the editor platforms); \<open>Len()\<close> counts code units. The terminating NUL
  is not part of the sequence, and strings carry no interior NUL.
\<close>

type_synonym TCHAR = "16 word"
type_synonym FString = "TCHAR list"
type_synonym uint8 = "8 word"
type_synonym int32 = "32 word"
type_synonym FDateTime = int

definition TEXT :: "string \<Rightarrow> FString" where
  "TEXT s = map of_char s"

text \<open>
  \<open>TChar<TCHAR>::ToLower\<close> and \<open>ToUpper\<close> of the engine (Misc/Char.h) change the
  ASCII letters only.
\<close>

definition TChar_ToLower :: "TCHAR \<Rightarrow> TCHAR" where
  "TChar_ToLower c = (if 0x41 \<le> c \<and> c \<le> 0x5A then c + 0x20 else c)"

definition TChar_ToUpper :: "TCHAR \<Rightarrow> TCHAR" where
  "TChar_ToUpper c = (if 0x61 \<le> c \<and> c \<le> 0x7A then c - 0x20 else c)"

definition ToLower :: "FString \<Rightarrow> FString" where
  "ToLower s = map TChar_ToLower s"

definition ToUpper :: "FString \<Rightarrow> FString" where
  "ToUpper s = map TChar_ToUpper s"

text \<open>
  \<open>operator==\<close> and \<open>operator!=\<close> on \<open>FString\<close> (Containers/UnrealString.h) are
  \<open>Equals(Other, ESearchCase::IgnoreCase)\<close>, that is \<open>FCString::Stricmp(...) == 0\<close>:
  two strings are equal when they agree up to the case of ASCII letters. The same holds
  for the comparison of an \<open>FString\<close> with a \<open>TEXT("...")\<close> literal.
\<close>

definition FString_eq :: "FString \<Rightarrow> FString \<Rightarrow> bool" where
  "FString_eq a b \<longleftrightarrow> ToLower a = ToLower b"

definition FString_ne :: "FString \<Rightarrow> FString \<Rightarrow> bool" where
  "FString_ne a b \<longleftrightarrow> \<not> FString_eq a b"

text \<open>
  \<open>Mid(Start, Count)\<close> and \<open>Mid(Start)\<close> for a start inside the string.
\<close>

definition Mid :: "FString \<Rightarrow> nat \<Rightarrow> nat \<Rightarrow> FString" where
  "Mid s start count = take count (drop start s)"

definition MidFrom :: "FString \<Rightarrow> nat \<Rightarrow> FString" where
  "MidFrom s start = drop start s"

text \<open>
  \<open>FindLastChar(c, Index)\<close>: the index of the last occurrence of the exact code unit,
  or no index.
\<close>

fun FindLastChar :: "FString \<Rightarrow> TCHAR \<Rightarrow> nat option" where
  "FindLastChar [] c = None"
| "FindLastChar (x # xs) c =
     (case FindLastChar xs c of
        Some i \<Rightarrow> Some (Suc i)
      | None \<Rightarrow> (if x = c then Some 0 else None))"

subsection \<open>TMap keyed by FString\<close>

text \<open>
  A \<open>TMap<FString, V>\<close> hashes and compares its keys with the default key functions of
  \<open>FString\<close>, which ignore case like \<open>operator==\<close>. The model keeps one slot per
  case-folded key; the slot holds the key as it was last added and its value.
  \<open>Add\<close> on a key that is present replaces the stored pair.
\<close>

type_synonym 'v TMap = "FString \<rightharpoonup> (FString \<times> 'v)"

definition TMap_Empty :: "'v TMap" where
  "TMap_Empty = Map.empty"

definition TMap_Contains :: "'v TMap \<Rightarrow> FString \<Rightarrow> bool" where
  "TMap_Contains m k \<longleftrightarrow> m (ToLower k) \<noteq> None"

definition TMap_Find :: "'v TMap \<Rightarrow> FString \<Rightarrow> 'v option" where
  "TMap_Find m k = map_option snd (m (ToLower k))"

definition TMap_Add :: "'v TMap \<Rightarrow> FString \<Rightarrow> 'v \<Rightarrow> 'v TMap" where
  "TMap_Add m k v = m(ToLower k \<mapsto> (k, v))"

definition TMap_Remove :: "'v TMap \<Rightarrow> FString \<Rightarrow> nat \<times> 'v TMap" where
  "TMap_Remove m k =
     (if TMap_Contains m k then (1, m(ToLower k := None)) else (0, m))"

definition TMap_Pairs :: "'v TMap \<Rightarrow> (FString \<times> 'v) set" where
  "TMap_Pairs m = ran m"

subsection \<open>JSON objects\<close>

datatype FJsonValue =
    FJsonValueBoolean bool
  | FJsonValueNumber real
  | FJsonValueString FString

type_synonym FJsonObject = "FJsonValue TMap"

definition SetBoolField :: "FJsonObject \<Rightarrow> FString \<Rightarrow> bool \<Rightarrow> FJsonObject" where
  "SetBoolField obj name b = TMap_Add obj name (FJsonValueBoolean b)"

definition SetNumberField :: "FJsonObject \<Rightarrow> FString \<Rightarrow> real \<Rightarrow> FJsonObject" where
  "SetNumberField obj name x = TMap_Add obj name (FJsonValueNumber x)"

section \<open>The seed subsystem\<close>

record FAegisGUIDEntry =
  GUID :: FString
  EntityPath :: FString
  EntityType :: FString
  EntityName :: FString
  Metadata :: FString
  CreatedAt :: FDateTime
  Version :: int32

text \<open>The private members of \<open>UAegisSeedSubsystem\<close>; \<open>SeedCounter\<close> starts at 0.\<close>

record UAegisSeedSubsystem =
  GUIDRegistry :: "FAegisGUIDEntry TMap"
  PathToGUIDMap :: "FString TMap"
  SnapshotStorage :: "FString TMap"
  GlobalSeed :: FString
  SeedCounter :: int32

definition NewSubsystem :: UAegisSeedSubsystem where
  "NewSubsystem =
     \<lparr>GUIDRegistry = TMap_Empty, PathToGUIDMap = TMap_Empty,
      SnapshotStorage = TMap_Empty, GlobalSeed = [], SeedCounter = 0\<rparr>"

subsection \<open>Global seed\<close>

definition SetGlobalSeed :: "UAegisSeedSubsystem \<Rightarrow> FString \<Rightarrow> bool \<Rightarrow> UAegisSeedSubsystem" where
  "SetGlobalSeed s Seed bResetCounter =
     (let s1 = s\<lparr>GlobalSeed := Seed\<rparr>
      in if bResetCounter then s1\<lparr>SeedCounter := 0\<rparr> else s1)"

definition GetGlobalSeed :: "UAegisSeedSubsystem \<Rightarrow> FString" where
  "GetGlobalSeed s = GlobalSeed s"

definition GetSeedCounter :: "UAegisSeedSubsystem \<Rightarrow> int32" where
  "GetSeedCounter s = SeedCounter s"

subsection \<open>Sync, merge and diff\<close>

text \<open>
  Each of the three operations builds a JSON object with two fields and returns its
  serialisation. \<open>FJsonSerializer::Serialize\<close> is the engine's; it is the parameter
  \<open>Serialize\<close>. The functions are members of the subsystem: they take its state and
  return it with the result.
\<close>

definition SyncWorldState ::
  "(FJsonObject \<Rightarrow> FString) \<Rightarrow> UAegisSeedSubsystem \<Rightarrow> FString \<Rightarrow> FString \<Rightarrow> bool \<Rightarrow> FString \<Rightarrow> bool
     \<Rightarrow> FString \<times> UAegisSeedSubsystem" where
  "SyncWorldState Serialize s TargetSnapshotId TargetEntities bCaptureCurrentFirst
       ConflictResolution bDryRun =
     (let Result0 = TMap_Empty;
          Result1 = SetBoolField Result0 (TEXT ''success'') True;
          Result2 = SetNumberField Result1 (TEXT ''plannedChanges'') 0
      in (Serialize Result2, s))"

definition MergeWorldStates ::
  "(FJsonObject \<Rightarrow> FString) \<Rightarrow> UAegisSeedSubsystem \<Rightarrow> FString \<Rightarrow> FString \<Rightarrow> FString \<Rightarrow> FString \<Rightarrow> bool
     \<Rightarrow> FString \<times> UAegisSeedSubsystem" where
  "MergeWorldStates Serialize s SourceSnapshotId TargetSnapshotId Changes
       ConflictResolution bPreserveSourceGUIDs =
     (let Result0 = TMap_Empty;
          Result1 = SetBoolField Result0 (TEXT ''success'') True;
          Result2 = SetNumberField Result1 (TEXT ''appliedChanges'') 0
      in (Serialize Result2, s))"

definition ApplyDiff ::
  "(FJsonObject \<Rightarrow> FString) \<Rightarrow> UAegisSeedSubsystem \<Rightarrow> FString \<Rightarrow> FString \<Rightarrow> FString
     \<Rightarrow> FString \<times> UAegisSeedSubsystem" where
  "ApplyDiff Serialize s DiffId Changes ConflictResolution =
     (let Result0 = TMap_Empty;
          Result1 = SetBoolField Result0 (TEXT ''success'') True;
          Result2 = SetNumberField Result1 (TEXT ''appliedChanges'') 0
      in (Serialize Result2, s))"

subsection \<open>Formatting\<close>

text \<open>
  \<open>FString::Printf\<close> for the directives the subsystem uses: \<open>%s\<close> with a string,
  \<open>%d\<close> with an \<open>int32\<close> (signed decimal), \<open>%02x\<close> with a byte (two lowercase
  hexadecimal digits). Any other character of the format is copied. A directive whose
  argument is of another kind does not occur in the subsystem; the model skips it.
\<close>

datatype FmtArg = ArgStr FString | ArgInt int32 | ArgByte uint8

definition DigitChar :: "nat \<Rightarrow> TCHAR" where
  "DigitChar d = of_nat (48 + d)"

definition HexDigitChar :: "nat \<Rightarrow> TCHAR" where
  "HexDigitChar d = (if d < 10 then of_nat (48 + d) else of_nat (87 + d))"

function DecimalDigits :: "nat \<Rightarrow> FString" where
  "DecimalDigits n =
     (if n < 10 then [DigitChar n] else DecimalDigits (n div 10) @ [DigitChar (n mod 10)])"
  by pat_completeness auto
termination
  by (relation "measure (\<lambda>n. n)") auto

definition FormatInt :: "int32 \<Rightarrow> FString" where
  "FormatInt v =
     (if sint v < 0 then of_char CHR ''-'' # DecimalDigits (nat (- sint v))
      else DecimalDigits (nat (sint v)))"

definition FormatHex02 :: "uint8 \<Rightarrow> FString" where
  "FormatHex02 b = [HexDigitChar (unat b div 16), HexDigitChar (unat b mod 16)]"

fun Printf :: "string \<Rightarrow> FmtArg list \<Rightarrow> FString" where
  "Printf [] args = []"
| "Printf [c] args = [of_char c]"
| "Printf (c # d # fmt) args =
     (if c = CHR ''%'' \<and> d = CHR ''s'' then
        (case args of
           ArgStr s # rest \<Rightarrow> s @ Printf fmt rest
         | _ \<Rightarrow> Printf fmt (tl args))
      else if c = CHR ''%'' \<and> d = CHR ''d'' then
        (case args of
           ArgInt i # rest \<Rightarrow> FormatInt i @ Printf fmt rest
         | _ \<Rightarrow> Printf fmt (tl args))
      else if c = CHR ''%'' \<and> d = CHR ''0'' \<and> take 2 fmt = ''2x'' then
        (case args of
           ArgByte b # rest \<Rightarrow> FormatHex02 b @ Printf (drop 2 fmt) rest
         | _ \<Rightarrow> Printf (drop 2 fmt) (tl args))
      else of_char c # Printf (d # fmt) args)"

subsection \<open>GUID generation\<close>

definition GetNamespaceCode :: "FString \<Rightarrow> FString" where
  "GetNamespaceCode Namespace =
     (if FString_eq Namespace (TEXT ''actor'') then TEXT ''ACT''
      else if FString_eq Namespace (TEXT ''component'') then TEXT ''CMP''
      else if FString_eq Namespace (TEXT ''asset'') then TEXT ''AST''
      else if FString_eq Namespace (TEXT ''blueprint'') then TEXT ''BPT''
      else if FString_eq Namespace (TEXT ''material'') then TEXT ''MAT''
      else if FString_eq Namespace (TEXT ''landscape'') then TEXT ''LND''
      else if FString_eq Namespace (TEXT ''foliage'') then TEXT ''FOL''
      else if FString_eq Namespace (TEXT ''pcg'') then TEXT ''PCG''
      else if FString_eq Namespace (TEXT ''ai'') then TEXT ''AIN''
      else if FString_eq Namespace (TEXT ''custom'') then TEXT ''CUS''
      else TEXT ''UNK'')"

text \<open>
  \<open>ComputeSHA256\<close> calls \<open>FSHA1::HashBuffer(TCHAR_TO_UTF8(*Input), Input.Len(), Hash.Hash)\<close>
  and prints the 20 bytes of \<open>Hash.Hash\<close> with \<open>%02x\<close>. The conversion macro and the hash
  are the engine's: \<open>ToUTF8\<close> gives the bytes of the converted buffer, \<open>HashBuffer\<close> maps
  the bytes it is given to the digest array (index to byte). The length passed is
  \<open>Input.Len()\<close>, the number of code units, so the hash reads that many bytes of the
  converted buffer (a conversion never yields fewer bytes than code units).
\<close>

function HashToHexLoop :: "(nat \<Rightarrow> uint8) \<Rightarrow> nat \<Rightarrow> FString \<Rightarrow> FString" where
  "HashToHexLoop Hash i HashString =
     (if i < 20
      then HashToHexLoop Hash (Suc i) (HashString @ Printf ''%02x'' [ArgByte (Hash i)])
      else HashString)"
  by pat_completeness auto
termination
  by (relation "measure (\<lambda>(Hash, i, HashString). 20 - i)") auto

definition ComputeSHA256 ::
  "(FString \<Rightarrow> uint8 list) \<Rightarrow> (uint8 list \<Rightarrow> nat \<Rightarrow> uint8) \<Rightarrow> FString \<Rightarrow> FString" where
  "ComputeSHA256 ToUTF8 HashBuffer Input =
     (let Hash = HashBuffer (take (length Input) (ToUTF8 Input))
      in HashToHexLoop Hash 0 [])"

definition GenerateGUID ::
  "(FString \<Rightarrow> uint8 list) \<Rightarrow> (uint8 list \<Rightarrow> nat \<Rightarrow> uint8) \<Rightarrow> UAegisSeedSubsystem
     \<Rightarrow> FString \<Rightarrow> FString \<Rightarrow> FString \<Rightarrow> int32 \<Rightarrow> FString
     \<Rightarrow> FString \<times> UAegisSeedSubsystem" where
  "GenerateGUID ToUTF8 HashBuffer s Namespace InEntityType Seed Counter InEntityName =
     (let InputString = Printf ''%s:%s:%s:%d:%s''
            [ArgStr Namespace, ArgStr InEntityType, ArgStr Seed, ArgInt Counter,
             ArgStr InEntityName];
          Hash = ComputeSHA256 ToUTF8 HashBuffer InputString;
          NamespaceCode = GetNamespaceCode Namespace;
          Result = Printf ''%s-%s-%s-%s-%s''
            [ArgStr NamespaceCode,
             ArgStr (ToUpper (Mid Hash 0 8)),
             ArgStr (ToUpper (Mid Hash 8 4)),
             ArgStr (ToUpper (Mid Hash 12 4)),
             ArgStr (ToUpper (Mid Hash 16 12))]
      in (Result, s))"

subsection \<open>GUID registry\<close>

text \<open>\<open>operator[]\<close> of a map; the code applies it only under \<open>Contains\<close>.\<close>

definition TMap_Index :: "'v TMap \<Rightarrow> FString \<Rightarrow> 'v" where
  "TMap_Index m k = snd (the (m (ToLower k)))"

text \<open>
  \<open>RegisterGUID\<close>; the reading of \<open>FDateTime::UtcNow()\<close> is the parameter \<open>UtcNow\<close>.
\<close>

definition RegisterGUID ::
  "FDateTime \<Rightarrow> UAegisSeedSubsystem \<Rightarrow> FString \<Rightarrow> FString \<Rightarrow> FString \<Rightarrow> FString
     \<Rightarrow> bool \<times> UAegisSeedSubsystem" where
  "RegisterGUID UtcNow s InGUID InEntityPath InEntityType InMetadata =
     (if TMap_Contains (GUIDRegistry s) InGUID \<and>
         FString_ne (EntityPath (TMap_Index (GUIDRegistry s) InGUID)) InEntityPath
      then (False, s)
      else if TMap_Contains (PathToGUIDMap s) InEntityPath \<and>
         FString_ne (TMap_Index (PathToGUIDMap s) InEntityPath) InGUID
      then (False, s)
      else
        (let Entry =
           \<lparr>GUID = InGUID,
            EntityPath = InEntityPath,
            EntityType = InEntityType,
            EntityName =
              (case FindLastChar InEntityPath (of_char CHR ''/'') of
                 Some LastSlash \<Rightarrow> MidFrom InEntityPath (LastSlash + 1)
               | None \<Rightarrow> InEntityPath),
            Metadata = InMetadata,
            CreatedAt = UtcNow,
            Version =
              (if TMap_Contains (GUIDRegistry s) InGUID
               then Version (TMap_Index (GUIDRegistry s) InGUID) + 1 else 1)\<rparr>
         in (True,
             s\<lparr>GUIDRegistry := TMap_Add (GUIDRegistry s) InGUID Entry,
               PathToGUIDMap := TMap_Add (PathToGUIDMap s) InEntityPath InGUID\<rparr>)))"

definition ClearGUIDRegistry :: "UAegisSeedSubsystem \<Rightarrow> UAegisSeedSubsystem" where
  "ClearGUIDRegistry s = s\<lparr>GUIDRegistry := TMap_Empty, PathToGUIDMap := TMap_Empty\<rparr>"

text \<open>A sequence of registry operations, run from left to right.\<close>

datatype RegistryOp =
    OpRegisterGUID FDateTime FString FString FString FString
  | OpClearGUIDRegistry

fun ApplyRegistryOp :: "UAegisSeedSubsystem \<Rightarrow> RegistryOp \<Rightarrow> UAegisSeedSubsystem" where
  "ApplyRegistryOp s (OpRegisterGUID now g p t m) = snd (RegisterGUID now s g p t m)"
| "ApplyRegistryOp s OpClearGUIDRegistry = ClearGUIDRegistry s"

definition ApplyRegistryOps :: "UAegisSeedSubsystem \<Rightarrow> RegistryOp list \<Rightarrow> UAegisSeedSubsystem" where
  "ApplyRegistryOps s ops = foldl ApplyRegistryOp s ops"

text \<open>
  The two maps as inverses of each other: every stored pair of one map is found, with
  the same strings, through the other.
\<close>

definition RegistryTwoWay :: "UAegisSeedSubsystem \<Rightarrow> bool" where
  "RegistryTwoWay s \<longleftrightarrow>
     (\<forall>g e. (g, e) \<in> TMap_Pairs (GUIDRegistry s) \<longrightarrow>
        TMap_Find (PathToGUIDMap s) (EntityPath e) = Some g \<and>
        (EntityPath e, g) \<in> TMap_Pairs (PathToGUIDMap s)) \<and>
     (\<forall>p g. (p, g) \<in> TMap_Pairs (PathToGUIDMap s) \<longrightarrow>
        (\<exists>e. TMap_Find (GUIDRegistry s) g = Some e \<and> EntityPath e = p \<and>
             (g, e) \<in> TMap_Pairs (GUIDRegistry s)))"

subsection \<open>Entity verification\<close>

text \<open>
  The editor world as the function sees it: \<open>None\<close> when \<open>GEditor\<close> or its world is
  null; otherwise the actors in the order of \<open>TActorIterator<AActor>\<close>, each with its
  \<open>GetPathName()\<close> and \<open>GetName()\<close>. \<open>FindObject<AActor>(World->GetCurrentLevel(), Path)\<close>
  is the engine's lookup, the parameter \<open>FindObject\<close>.
\<close>

record AActor =
  GetPathName :: FString
  GetName :: FString

record UWorld =
  Actors :: "AActor list"

fun ActorNameSearch :: "AActor list \<Rightarrow> FString \<Rightarrow> bool" where
  "ActorNameSearch [] InEntityPath = False"
| "ActorNameSearch (It # rest) InEntityPath =
     (if FString_eq (GetPathName It) InEntityPath \<or> FString_eq (GetName It) InEntityPath
      then True
      else ActorNameSearch rest InEntityPath)"

definition VerifyGUIDEntity ::
  "(UWorld \<Rightarrow> FString \<Rightarrow> AActor option) \<Rightarrow> UWorld option \<Rightarrow> UAegisSeedSubsystem
     \<Rightarrow> FString \<Rightarrow> FString \<Rightarrow> bool \<times> UAegisSeedSubsystem" where
  "VerifyGUIDEntity FindObject World s InGUID InEntityPath =
     (case World of
        None \<Rightarrow> (False, s)
      | Some W \<Rightarrow>
          (case FindObject W InEntityPath of
             None \<Rightarrow> (ActorNameSearch (Actors W) InEntityPath, s)
           | Some Actor \<Rightarrow> (True, s)))"

subsection \<open>Snapshot store\<close>

definition StoreSnapshot ::
  "UAegisSeedSubsystem \<Rightarrow> FString \<Rightarrow> FString \<Rightarrow> bool \<times> UAegisSeedSubsystem" where
  "StoreSnapshot s SnapshotId SnapshotData =
     (True, s\<lparr>SnapshotStorage := TMap_Add (SnapshotStorage s) SnapshotId SnapshotData\<rparr>)"

definition LoadSnapshot :: "UAegisSeedSubsystem \<Rightarrow> FString \<Rightarrow> FString \<times> UAegisSeedSubsystem" where
  "LoadSnapshot s SnapshotId =
     (case TMap_Find (SnapshotStorage s) SnapshotId of
        Some Data \<Rightarrow> (Data, s)
      | None \<Rightarrow> (TEXT [], s))"

definition DeleteSnapshot :: "UAegisSeedSubsystem \<Rightarrow> FString \<Rightarrow> bool \<times> UAegisSeedSubsystem" where
  "DeleteSnapshot s SnapshotId =
     (let (Removed, Storage) = TMap_Remove (SnapshotStorage s) SnapshotId
      in if Removed > 0 then (True, s\<lparr>SnapshotStorage := Storage\<rparr>)
         else (False, s\<lparr>SnapshotStorage := Storage\<rparr>))"

text \<open>
  \<open>ExportSnapshot\<close>. \<open>FFileHelper::SaveStringToFile\<close> is the engine's: the parameter
  \<open>SaveStringToFile\<close> takes the string, the path and the file system, and returns
  whether the write succeeded and the file system after it.
\<close>

definition ExportSnapshot ::
  "(FString \<Rightarrow> FString \<Rightarrow> 'fs \<Rightarrow> bool \<times> 'fs) \<Rightarrow> 'fs \<Rightarrow> UAegisSeedSubsystem
     \<Rightarrow> FString \<Rightarrow> FString \<Rightarrow> FString \<Rightarrow> bool \<Rightarrow> bool \<times> 'fs \<times> UAegisSeedSubsystem" where
  "ExportSnapshot SaveStringToFile fs s SnapshotId SnapshotData OutputPath bCompress =
     (let DataToWrite = SnapshotData;
          (Saved, fs') = SaveStringToFile DataToWrite OutputPath fs
      in if Saved then (True, fs', s) else (False, fs', s))"

text \<open>A sequence of store and delete calls, run from left to right.\<close>

datatype SnapshotOp = OpStoreSnapshot FString FString | OpDeleteSnapshot FString

fun ApplySnapshotOp :: "UAegisSeedSubsystem \<Rightarrow> SnapshotOp \<Rightarrow> UAegisSeedSubsystem" where
  "ApplySnapshotOp s (OpStoreSnapshot i d) = snd (StoreSnapshot s i d)"
| "ApplySnapshotOp s (OpDeleteSnapshot i) = snd (DeleteSnapshot s i)"

definition ApplySnapshotOps :: "UAegisSeedSubsystem \<Rightarrow> SnapshotOp list \<Rightarrow> UAegisSeedSubsystem" where
  "ApplySnapshotOps s ops = foldl ApplySnapshotOp s ops"

text \<open>
  The object the claim describes: exactly the two fields \<open>"success" = true\<close> and the
  named change counter at 0.
\<close>

definition zero_change_object :: "string \<Rightarrow> FJsonObject \<Rightarrow> bool" where
  "zero_change_object counter obj \<longleftrightarrow>
     TMap_Pairs obj =
       {(TEXT ''success'', FJsonValueBoolean True), (TEXT counter, FJsonValueNumber 0)} \<and>
     TMap_Find obj (TEXT ''success'') = Some (FJsonValueBoolean True) \<and>
     TMap_Find obj (TEXT counter) = Some (FJsonValueNumber 0)"

subsection \<open>Vocabulary of the GUID and hash statements\<close>

text \<open>
  The namespace table as the specification lists it, read with exact string matching and
  read ignoring the case of the namespace.
\<close>

definition NamespaceCodes :: "(string \<times> string) list" where
  "NamespaceCodes =
     [(''actor'', ''ACT''), (''component'', ''CMP''), (''asset'', ''AST''),
      (''blueprint'', ''BPT''), (''material'', ''MAT''), (''landscape'', ''LND''),
      (''foliage'', ''FOL''), (''pcg'', ''PCG''), (''ai'', ''AIN''), (''custom'', ''CUS'')]"

definition NamespaceCode_exact :: "FString \<Rightarrow> FString" where
  "NamespaceCode_exact ns =
     (case map_of (map (\<lambda>(n, c). (TEXT n, TEXT c)) NamespaceCodes) ns of
        Some c \<Rightarrow> c
      | None \<Rightarrow> TEXT ''UNK'')"

definition NamespaceCode_ignoring_case :: "FString \<Rightarrow> FString" where
  "NamespaceCode_ignoring_case ns = NamespaceCode_exact (ToLower ns)"

text \<open>The characters of a string at the positions \<open>[a, b)\<close>.\<close>

definition Slice :: "FString \<Rightarrow> nat \<Rightarrow> nat \<Rightarrow> FString" where
  "Slice s a b = map (\<lambda>i. s ! i) [a..<b]"

text \<open>
  The string hashed for a GUID, \<open>Namespace:EntityType:Seed:Counter:EntityName\<close> with
  the counter in decimal, and the GUID \<open>NSCODE-G1-G2-G3-G4\<close> built from a hash \<open>H\<close>
  under a reading \<open>code\<close> of the namespace table.
\<close>

definition GUIDInput :: "FString \<Rightarrow> FString \<Rightarrow> FString \<Rightarrow> int32 \<Rightarrow> FString \<Rightarrow> FString" where
  "GUIDInput ns ty seed ctr name =
     ns @ TEXT '':'' @ ty @ TEXT '':'' @ seed @ TEXT '':'' @ FormatInt ctr @ TEXT '':'' @ name"

definition GUIDFormat :: "(FString \<Rightarrow> FString) \<Rightarrow> FString \<Rightarrow> FString \<Rightarrow> FString" where
  "GUIDFormat code ns H =
     code ns @ TEXT ''-'' @
     ToUpper (Slice H 0 8) @ TEXT ''-'' @
     ToUpper (Slice H 8 12) @ TEXT ''-'' @
     ToUpper (Slice H 12 16) @ TEXT ''-'' @
     ToUpper (Slice H 16 28)"

text \<open>The 40-character lowercase hexadecimal encoding of a 20-byte digest.\<close>

definition HexOfDigest :: "(nat \<Rightarrow> uint8) \<Rightarrow> FString" where
  "HexOfDigest Hash = concat (map (\<lambda>i. FormatHex02 (Hash i)) [0..<20])"

text \<open>
  The UTF-8 bytes of a string without surrogate code units, as \<open>TCHAR_TO_UTF8\<close> produces
  them: one byte below U+0080, two below U+0800, three otherwise.
\<close>

definition UTF8_of_unit :: "TCHAR \<Rightarrow> uint8 list" where
  "UTF8_of_unit c =
     (if c < 0x80 then [ucast c]
      else if c < 0x800 then [0xC0 + ucast (c div 64), 0x80 + ucast (c mod 64)]
      else [0xE0 + ucast (c div 4096), 0x80 + ucast (c div 64 mod 64),
            0x80 + ucast (c mod 64)])"

definition TCHAR_TO_UTF8 :: "FString \<Rightarrow> uint8 list" where
  "TCHAR_TO_UTF8 s = concat (map UTF8_of_unit s)"

text \<open>A stand-in digest (all bytes 0) for evaluating \<open>GenerateGUID\<close> on an example.\<close>

definition ZeroDigest :: "uint8 list \<Rightarrow> nat \<Rightarrow> uint8" where
  "ZeroDigest bytes i = 0"

subsection \<open>Vocabulary of the registry statements\<close>

text \<open>
  The slot discipline of the two maps together with the two-way property on the slots;
  it implies \<open>RegistryTwoWay\<close> and is what each operation preserves.
\<close>

definition RegistryInv :: "UAegisSeedSubsystem \<Rightarrow> bool" where
  "RegistryInv s \<longleftrightarrow>
     (\<forall>n g e. GUIDRegistry s n = Some (g, e) \<longrightarrow>
        n = ToLower g \<and>
        PathToGUIDMap s (ToLower (EntityPath e)) = Some (EntityPath e, g)) \<and>
     (\<forall>n p g. PathToGUIDMap s n = Some (p, g) \<longrightarrow>
        n = ToLower p \<and>
        (\<exists>e. GUIDRegistry s (ToLower g) = Some (g, e) \<and> EntityPath e = p))"

text \<open>
  The condition under which \<open>RegisterGUID\<close> refuses: the GUID is registered to a
  different path, or the path maps to a different GUID. \<open>RegisterConflict\<close> reads
  "different" as the code compares strings (\<open>operator!=\<close>), \<open>RegisterConflict_exact\<close> as
  inequality of the strings.
\<close>

definition RegisterConflict :: "UAegisSeedSubsystem \<Rightarrow> FString \<Rightarrow> FString \<Rightarrow> bool" where
  "RegisterConflict s g p \<longleftrightarrow>
     (case TMap_Find (GUIDRegistry s) g of
        Some e \<Rightarrow> FString_ne (EntityPath e) p
      | None \<Rightarrow> False) \<or>
     (case TMap_Find (PathToGUIDMap s) p of
        Some g' \<Rightarrow> FString_ne g' g
      | None \<Rightarrow> False)"

definition RegisterConflict_exact :: "UAegisSeedSubsystem \<Rightarrow> FString \<Rightarrow> FString \<Rightarrow> bool" where
  "RegisterConflict_exact s g p \<longleftrightarrow>
     (case TMap_Find (GUIDRegistry s) g of
        Some e \<Rightarrow> EntityPath e \<noteq> p
      | None \<Rightarrow> False) \<or>
     (case TMap_Find (PathToGUIDMap s) p of
        Some g' \<Rightarrow> g' \<noteq> g
      | None \<Rightarrow> False)"

text \<open>An example: one actor registered in a fresh subsystem.\<close>

definition ExampleOps :: "RegistryOp list" where
  "ExampleOps =
     [OpRegisterGUID 0 (TEXT ''ACT-1'') (TEXT ''/Game/Map.Cube'') (TEXT ''StaticMeshActor'')
        (TEXT ''{}'')]"

definition ExampleRegistry :: UAegisSeedSubsystem where
  "ExampleRegistry = ApplyRegistryOps NewSubsystem ExampleOps"

definition ExampleEntry :: FAegisGUIDEntry where
  "ExampleEntry =
     \<lparr>GUID = TEXT ''ACT-1'', EntityPath = TEXT ''/Game/Map.Cube'',
      EntityType = TEXT ''StaticMeshActor'', EntityName = TEXT ''Map.Cube'',
      Metadata = TEXT ''{}'', CreatedAt = 0, Version = 1\<rparr>"

subsection \<open>Vocabulary of the snapshot statements\<close>

fun SnapshotOpId :: "SnapshotOp \<Rightarrow> FString" where
  "SnapshotOpId (OpStoreSnapshot i d) = i"
| "SnapshotOpId (OpDeleteSnapshot i) = i"

fun IsStore :: "SnapshotOp \<Rightarrow> bool" where
  "IsStore (OpStoreSnapshot i d) = True"
| "IsStore (OpDeleteSnapshot i) = False"

section \<open>Properties\<close>

subsection \<open>Maps\<close>

lemma TMap_Pairs_Empty: "TMap_Pairs TMap_Empty = {}"
  by (simp add: TMap_Pairs_def TMap_Empty_def)

lemma TMap_Contains_Empty: "\<not> TMap_Contains TMap_Empty k"
  by (simp add: TMap_Contains_def TMap_Empty_def)

lemma TMap_Find_Empty: "TMap_Find TMap_Empty k = None"
  by (simp add: TMap_Find_def TMap_Empty_def)

lemma TMap_Contains_Add:
  "TMap_Contains (TMap_Add m k v) k' \<longleftrightarrow> ToLower k' = ToLower k \<or> TMap_Contains m k'"
  by (simp add: TMap_Contains_def TMap_Add_def)

lemma TMap_Find_Add:
  "TMap_Find (TMap_Add m k v) k' = (if ToLower k' = ToLower k then Some v else TMap_Find m k')"
  by (simp add: TMap_Find_def TMap_Add_def)

lemma TMap_Pairs_Add_fresh:
  "\<not> TMap_Contains m k \<Longrightarrow> TMap_Pairs (TMap_Add m k v) = insert (k, v) (TMap_Pairs m)"
proof -
  assume "\<not> TMap_Contains m k"
  then have "m (ToLower k) = None"
    by (cases "m (ToLower k)") (auto simp: TMap_Contains_def)
  then show ?thesis
    by (simp add: TMap_Add_def TMap_Pairs_def)
qed

subsection \<open>Global seed\<close>

text \<open>
  C10. \<open>SetGlobalSeed(Seed, bResetCounter)\<close> sets \<open>GlobalSeed\<close> to \<open>Seed\<close>;
  \<open>SeedCounter\<close> becomes 0 when \<open>bResetCounter\<close> is true and keeps its value
  otherwise; the GUID registry, the path map and the snapshot storage are not modified;
  afterwards \<open>GetGlobalSeed\<close> returns \<open>Seed\<close> and \<open>GetSeedCounter\<close> returns 0 or the
  prior value accordingly.
\<close>

theorem SetGlobalSeed_effect:
  "GlobalSeed (SetGlobalSeed s Seed b) = Seed \<and>
   SeedCounter (SetGlobalSeed s Seed True) = 0 \<and>
   SeedCounter (SetGlobalSeed s Seed False) = SeedCounter s \<and>
   GUIDRegistry (SetGlobalSeed s Seed b) = GUIDRegistry s \<and>
   PathToGUIDMap (SetGlobalSeed s Seed b) = PathToGUIDMap s \<and>
   SnapshotStorage (SetGlobalSeed s Seed b) = SnapshotStorage s \<and>
   GetGlobalSeed (SetGlobalSeed s Seed b) = Seed \<and>
   GetSeedCounter (SetGlobalSeed s Seed True) = 0 \<and>
   GetSeedCounter (SetGlobalSeed s Seed False) = GetSeedCounter s"
  by (simp add: SetGlobalSeed_def GetGlobalSeed_def GetSeedCounter_def Let_def)

subsection \<open>Sync, merge and diff\<close>

lemma ToLower_success_ne:
  "ToLower (TEXT ''plannedChanges'') \<noteq> ToLower (TEXT ''success'')"
  "ToLower (TEXT ''appliedChanges'') \<noteq> ToLower (TEXT ''success'')"
  by (simp_all add: TEXT_def ToLower_def)

lemma zero_change_planned:
  "zero_change_object ''plannedChanges''
     (SetNumberField (SetBoolField TMap_Empty (TEXT ''success'') True) (TEXT ''plannedChanges'') 0)"
  unfolding SetBoolField_def SetNumberField_def zero_change_object_def
  by (simp add: TMap_Pairs_Add_fresh TMap_Contains_Add TMap_Contains_Empty TMap_Pairs_Empty
      TMap_Find_Add ToLower_success_ne ToLower_success_ne [symmetric] insert_commute)

lemma zero_change_applied:
  "zero_change_object ''appliedChanges''
     (SetNumberField (SetBoolField TMap_Empty (TEXT ''success'') True) (TEXT ''appliedChanges'') 0)"
  unfolding SetBoolField_def SetNumberField_def zero_change_object_def
  by (simp add: TMap_Pairs_Add_fresh TMap_Contains_Add TMap_Contains_Empty TMap_Pairs_Empty
      TMap_Find_Add ToLower_success_ne ToLower_success_ne [symmetric] insert_commute)

text \<open>
  C1. For every input, \<open>SyncWorldState\<close> returns the serialised JSON object with
  \<open>"success" = true\<close> and \<open>"plannedChanges" = 0\<close>, and \<open>MergeWorldStates\<close> and
  \<open>ApplyDiff\<close> each return the serialised JSON object with \<open>"success" = true\<close> and
  \<open>"appliedChanges" = 0\<close>, whatever their snapshot ids, entities or changes, conflict
  resolution and flags; the state of the subsystem is returned as it was.
\<close>

theorem world_state_stubs:
  "(\<exists>obj. SyncWorldState ser s a b c d e = (ser obj, s) \<and>
          zero_change_object ''plannedChanges'' obj) \<and>
   (\<exists>obj. MergeWorldStates ser s a' b' c' d' e' = (ser obj, s) \<and>
          zero_change_object ''appliedChanges'' obj) \<and>
   (\<exists>obj. ApplyDiff ser s a'' b'' c'' = (ser obj, s) \<and>
          zero_change_object ''appliedChanges'' obj)"
proof (intro conjI)
  show "\<exists>obj. SyncWorldState ser s a b c d e = (ser obj, s) \<and>
          zero_change_object ''plannedChanges'' obj"
    unfolding SyncWorldState_def Let_def
    by (rule exI, rule conjI, rule refl) (rule zero_change_planned)
  show "\<exists>obj. MergeWorldStates ser s a' b' c' d' e' = (ser obj, s) \<and>
          zero_change_object ''appliedChanges'' obj"
    unfolding MergeWorldStates_def Let_def
    by (rule exI, rule conjI, rule refl) (rule zero_change_applied)
  show "\<exists>obj. ApplyDiff ser s a'' b'' c'' = (ser obj, s) \<and>
          zero_change_object ''appliedChanges'' obj"
    unfolding ApplyDiff_def Let_def
    by (rule exI, rule conjI, rule refl) (rule zero_change_applied)
qed

subsection \<open>Snapshot export\<close>

text \<open>
  C7. For every snapshot id, data and output path, \<open>ExportSnapshot\<close> hands exactly
  \<open>SnapshotData\<close> to the file write for \<open>OutputPath\<close>; the outcome (return value, file
  system, subsystem) is the same for \<open>bCompress = true\<close> and \<open>bCompress = false\<close>; and
  the function returns true exactly when the file write succeeds.
\<close>

theorem ExportSnapshot_writes_data_uncompressed:
  "ExportSnapshot save fs s sid data path c =
     (fst (save data path fs), snd (save data path fs), s) \<and>
   ExportSnapshot save fs s sid data path True = ExportSnapshot save fs s sid data path False"
  by (simp add: ExportSnapshot_def Let_def split: prod.splits)

subsection \<open>Entity verification\<close>

lemma ActorNameSearch_iff:
  "ActorNameSearch as p \<longleftrightarrow>
     (\<exists>a \<in> set as. FString_eq (GetPathName a) p \<or> FString_eq (GetName a) p)"
  by (induction as) auto

text \<open>
  C9. The result of \<open>VerifyGUIDEntity\<close> does not depend on its GUID argument nor on the
  state of the subsystem (the registry is never consulted): it is false when no world is
  available, and otherwise true exactly when the engine lookup finds the path in the
  current level or some actor of the world matches \<open>EntityPath\<close> by its path name or by
  its name. The state is returned as it was.
\<close>

theorem VerifyGUIDEntity_ignores_GUID:
  "fst (VerifyGUIDEntity fo w s1 g1 p) = fst (VerifyGUIDEntity fo w s2 g2 p) \<and>
   fst (VerifyGUIDEntity fo None s g p) = False \<and>
   fst (VerifyGUIDEntity fo (Some W) s g p) =
     ((\<exists>a. fo W p = Some a) \<or>
      (\<exists>a \<in> set (Actors W). FString_eq (GetPathName a) p \<or> FString_eq (GetName a) p)) \<and>
   snd (VerifyGUIDEntity fo w s g p) = s"
  by (auto simp: VerifyGUIDEntity_def ActorNameSearch_iff split: option.splits)

subsection \<open>GUID generation\<close>

text \<open>
  C2. GUID generation is deterministic: two calls of \<open>GenerateGUID\<close> with equal
  arguments return equal GUID strings in any two states of the subsystem; the result
  depends on none of \<open>GlobalSeed\<close>, \<open>SeedCounter\<close>, the GUID registry and the snapshot
  store.
\<close>

theorem GenerateGUID_deterministic:
  "fst (GenerateGUID u h s1 ns ty seed ctr name) = fst (GenerateGUID u h s2 ns ty seed ctr name)"
  by (simp add: GenerateGUID_def Let_def)

lemma Printf_input:
  "Printf ''%s:%s:%s:%d:%s'' [ArgStr a, ArgStr b, ArgStr c, ArgInt i, ArgStr d] =
     a @ TEXT '':'' @ b @ TEXT '':'' @ c @ TEXT '':'' @ FormatInt i @ TEXT '':'' @ d"
  by (simp add: TEXT_def)

lemma Printf_guid:
  "Printf ''%s-%s-%s-%s-%s'' [ArgStr a, ArgStr b, ArgStr c, ArgStr d, ArgStr e] =
     a @ TEXT ''-'' @ b @ TEXT ''-'' @ c @ TEXT ''-'' @ d @ TEXT ''-'' @ e"
  by (simp add: TEXT_def)

lemma Printf_hex: "Printf ''%02x'' [ArgByte b] = FormatHex02 b"
  by simp

lemma HashToHexLoop_eq:
  "HashToHexLoop H i acc = acc @ concat (map (\<lambda>j. FormatHex02 (H j)) [i..<20])"
proof (induction H i acc rule: HashToHexLoop.induct)
  case (1 Hash i HashString)
  show ?case
  proof (cases "i < 20")
    case True
    then have "[i..<20] = i # [Suc i..<20]"
      by (simp add: upt_conv_Cons)
    with True "1" show ?thesis
      by (simp add: Printf_hex del: Printf.simps)
  next
    case False
    then show ?thesis by simp
  qed
qed

text \<open>
  What \<open>ComputeSHA256\<close> returns: the hexadecimal encoding of the digest of the first
  \<open>Len()\<close> bytes of the converted input.
\<close>

lemma ComputeSHA256_eq:
  "ComputeSHA256 u h x = HexOfDigest (h (take (length x) (u x)))"
  by (simp add: ComputeSHA256_def Let_def HashToHexLoop_eq HexOfDigest_def
      del: HashToHexLoop.simps)

lemma length_concat_const:
  "(\<And>x. x \<in> set xs \<Longrightarrow> length (f x) = k) \<Longrightarrow> length (concat (map f xs)) = k * length xs"
  by (induction xs) auto

lemma length_HexOfDigest: "length (HexOfDigest d) = 40"
  unfolding HexOfDigest_def
  by (subst length_concat_const [where k = 2]) (simp_all add: FormatHex02_def)

lemma length_ComputeSHA256: "length (ComputeSHA256 u h x) = 40"
  by (simp add: ComputeSHA256_eq length_HexOfDigest)

lemma Mid_Slice: "a + n \<le> length s \<Longrightarrow> Mid s a n = Slice s a (a + n)"
  unfolding Mid_def Slice_def
  by (rule nth_equalityI) auto

lemma GetNamespaceCode_table: "GetNamespaceCode ns = NamespaceCode_ignoring_case ns"
  by (simp add: GetNamespaceCode_def NamespaceCode_ignoring_case_def NamespaceCode_exact_def
      NamespaceCodes_def FString_eq_def TEXT_def ToLower_def TChar_ToLower_def)

text \<open>
  C3, as stated: \<open>GenerateGUID\<close> returns \<open>NSCODE-G1-G2-G3-G4\<close> with \<open>NSCODE\<close> the code
  of the table for the exact namespace string and \<open>UNK\<close> for anything else. This fails:
  \<open>"ACTOR"\<close> is none of the ten listed strings, yet its code is \<open>ACT\<close>, because the
  comparison of \<open>Namespace\<close> with each literal ignores case.
\<close>

theorem GenerateGUID_namespace_case_counterexample:
  "fst (GenerateGUID TCHAR_TO_UTF8 ZeroDigest NewSubsystem (TEXT ''ACTOR'') [] [] 0 []) \<noteq>
     GUIDFormat NamespaceCode_exact (TEXT ''ACTOR'')
       (ComputeSHA256 TCHAR_TO_UTF8 ZeroDigest (GUIDInput (TEXT ''ACTOR'') [] [] 0 [])) \<and>
   fst (GenerateGUID TCHAR_TO_UTF8 ZeroDigest NewSubsystem (TEXT ''ACTOR'') [] [] 0 []) =
     TEXT ''ACT-00000000-0000-0000-000000000000'' \<and>
   NamespaceCode_exact (TEXT ''ACTOR'') = TEXT ''UNK''"
  by code_simp

text \<open>
  C3, amended: for all arguments \<open>GenerateGUID\<close> returns \<open>NSCODE-G1-G2-G3-G4\<close>, where
  \<open>NSCODE\<close> is the three-letter code of the table for \<open>Namespace\<close> compared ignoring
  the case of ASCII letters (\<open>UNK\<close> when no entry matches), and \<open>G1\<close> .. \<open>G4\<close> are the
  uppercased characters at the positions \<open>[0,8)\<close>, \<open>[8,12)\<close>, \<open>[12,16)\<close>, \<open>[16,28)\<close>
  of the 40-character hash \<open>ComputeSHA256\<close> gives for the concatenation
  \<open>Namespace:EntityType:Seed:Counter:EntityName\<close>, the counter in decimal.
\<close>

theorem GenerateGUID_format:
  "fst (GenerateGUID u h s ns ty seed ctr name) =
     GUIDFormat NamespaceCode_ignoring_case ns
       (ComputeSHA256 u h (GUIDInput ns ty seed ctr name)) \<and>
   length (ComputeSHA256 u h (GUIDInput ns ty seed ctr name)) = 40"
proof -
  define H where "H = ComputeSHA256 u h (GUIDInput ns ty seed ctr name)"
  have len: "length H = 40"
    by (simp add: H_def length_ComputeSHA256)
  have m: "Mid H 0 8 = Slice H 0 8" "Mid H 8 4 = Slice H 8 12"
    "Mid H 12 4 = Slice H 12 16" "Mid H 16 12 = Slice H 16 28"
    using len Mid_Slice [of 0 8 H] Mid_Slice [of 8 4 H] Mid_Slice [of 12 4 H]
      Mid_Slice [of 16 12 H]
    by simp_all
  have "fst (GenerateGUID u h s ns ty seed ctr name) = GUIDFormat NamespaceCode_ignoring_case ns H"
    unfolding GenerateGUID_def Let_def Printf_input Printf_guid GUIDInput_def [symmetric]
      H_def [symmetric]
    by (simp add: m GetNamespaceCode_table GUIDFormat_def)
  with len show ?thesis
    by (simp add: H_def)
qed

subsection \<open>Hashing\<close>

lemma length_TCHAR_TO_UTF8_ASCII:
  "\<forall>c \<in> set x. c < 0x80 \<Longrightarrow> length (TCHAR_TO_UTF8 x) = length x"
  by (induction x) (auto simp: TCHAR_TO_UTF8_def UTF8_of_unit_def)

text \<open>For a string of ASCII characters the whole converted input is hashed.\<close>

lemma ComputeSHA256_ASCII:
  "\<forall>c \<in> set x. c < 0x80 \<Longrightarrow>
     ComputeSHA256 TCHAR_TO_UTF8 h x = HexOfDigest (h (TCHAR_TO_UTF8 x))"
  by (simp add: ComputeSHA256_eq length_TCHAR_TO_UTF8_ASCII)

lemma FormatInt_0: "FormatInt 0 = TEXT ''0''"
  by (simp add: FormatInt_def TEXT_def DigitChar_def)

text \<open>
  C8. The claim: for every input string \<open>ComputeSHA256\<close> returns the 40-character
  lowercase hexadecimal encoding of the 20-byte digest of the hash primitive applied to
  that input, with no truncation. The code passes \<open>Input.Len()\<close>, the number of code
  units, as the byte count of the converted buffer. At the one-character input U+00E9,
  whose UTF-8 conversion is the two bytes C3 A9, the primitive is applied to the single
  byte C3, and the input U+00E8 (C3 A8) gets the same hash, whatever the primitive.
  Through \<open>GenerateGUID\<close>: the entity names U+00E8 and U+00E9 get the same GUID, the
  last byte of the converted input string being cut off.
\<close>

theorem ComputeSHA256_truncates_non_ASCII:
  "TCHAR_TO_UTF8 [0xE9] = [0xC3, 0xA9] \<and>
   ComputeSHA256 TCHAR_TO_UTF8 h [0xE9] = HexOfDigest (h [0xC3]) \<and>
   ComputeSHA256 TCHAR_TO_UTF8 h [0xE8] = ComputeSHA256 TCHAR_TO_UTF8 h [0xE9] \<and>
   fst (GenerateGUID TCHAR_TO_UTF8 h s (TEXT ''actor'') (TEXT ''Mesh'') (TEXT ''s'') 0 [0xE8]) =
   fst (GenerateGUID TCHAR_TO_UTF8 h s (TEXT ''actor'') (TEXT ''Mesh'') (TEXT ''s'') 0 [0xE9])"
proof (intro conjI)
  show "TCHAR_TO_UTF8 [0xE9] = [0xC3, 0xA9]"
    by (simp add: TCHAR_TO_UTF8_def UTF8_of_unit_def)
  show "ComputeSHA256 TCHAR_TO_UTF8 h [0xE9] = HexOfDigest (h [0xC3])"
    by (simp add: ComputeSHA256_eq TCHAR_TO_UTF8_def UTF8_of_unit_def)
  show "ComputeSHA256 TCHAR_TO_UTF8 h [0xE8] = ComputeSHA256 TCHAR_TO_UTF8 h [0xE9]"
    by (simp add: ComputeSHA256_eq TCHAR_TO_UTF8_def UTF8_of_unit_def)
  have "ComputeSHA256 TCHAR_TO_UTF8 h
          (GUIDInput (TEXT ''actor'') (TEXT ''Mesh'') (TEXT ''s'') 0 [0xE8]) =
        ComputeSHA256 TCHAR_TO_UTF8 h
          (GUIDInput (TEXT ''actor'') (TEXT ''Mesh'') (TEXT ''s'') 0 [0xE9])"
    by (simp add: ComputeSHA256_eq GUIDInput_def FormatInt_0 TEXT_def TCHAR_TO_UTF8_def
        UTF8_of_unit_def)
  then show "fst (GenerateGUID TCHAR_TO_UTF8 h s (TEXT ''actor'') (TEXT ''Mesh'') (TEXT ''s'') 0 [0xE8]) =
   fst (GenerateGUID TCHAR_TO_UTF8 h s (TEXT ''actor'') (TEXT ''Mesh'') (TEXT ''s'') 0 [0xE9])"
    unfolding GenerateGUID_def Let_def Printf_input GUIDInput_def [symmetric]
    by simp
qed

subsection \<open>GUID registry\<close>

lemma RegistryInv_New: "RegistryInv NewSubsystem"
  by (simp add: RegistryInv_def NewSubsystem_def TMap_Empty_def)

lemma RegistryInv_Clear: "RegistryInv (ClearGUIDRegistry s)"
  by (simp add: RegistryInv_def ClearGUIDRegistry_def TMap_Empty_def)

lemma RegistryInv_Register:
  assumes "RegistryInv s"
  shows "RegistryInv (snd (RegisterGUID now s g p t m))"
proof (cases "fst (RegisterGUID now s g p t m)")
  case False
  then have "snd (RegisterGUID now s g p t m) = s"
    by (auto simp: RegisterGUID_def Let_def split: if_splits)
  with assms show ?thesis by simp
next
  case True
  define R where "R = GUIDRegistry s"
  define P where "P = PathToGUIDMap s"
  from True have c1: "R (ToLower g) = None \<or>
      (\<exists>k e. R (ToLower g) = Some (k, e) \<and> ToLower (EntityPath e) = ToLower p)"
    by (cases "R (ToLower g)")
      (auto simp: RegisterGUID_def Let_def TMap_Contains_def TMap_Index_def FString_ne_def
        FString_eq_def R_def split: if_splits)
  from True have c2: "P (ToLower p) = None \<or>
      (\<exists>k g'. P (ToLower p) = Some (k, g') \<and> ToLower g' = ToLower g)"
    by (cases "P (ToLower p)")
      (auto simp: RegisterGUID_def Let_def TMap_Contains_def TMap_Index_def FString_ne_def
        FString_eq_def P_def split: if_splits)
  define E where "E =
           \<lparr>GUID = g, EntityPath = p, EntityType = t,
            EntityName =
              (case FindLastChar p (of_char CHR ''/'') of
                 Some LastSlash \<Rightarrow> MidFrom p (LastSlash + 1)
               | None \<Rightarrow> p),
            Metadata = m, CreatedAt = now,
            Version =
              (if TMap_Contains (GUIDRegistry s) g
               then Version (TMap_Index (GUIDRegistry s) g) + 1 else 1)\<rparr>"
  have E: "EntityPath E = p"
    by (simp add: E_def)
  from True have s': "snd (RegisterGUID now s g p t m) =
      s\<lparr>GUIDRegistry := TMap_Add (GUIDRegistry s) g E,
        PathToGUIDMap := TMap_Add (PathToGUIDMap s) p g\<rparr>"
    unfolding RegisterGUID_def Let_def E_def by (auto split: if_splits)
  have R': "GUIDRegistry (snd (RegisterGUID now s g p t m)) = R(ToLower g \<mapsto> (g, E))"
    and P': "PathToGUIDMap (snd (RegisterGUID now s g p t m)) = P(ToLower p \<mapsto> (p, g))"
    by (simp_all add: s' TMap_Add_def R_def P_def)
  from assms have i1: "\<And>n g e. R n = Some (g, e) \<Longrightarrow>
        n = ToLower g \<and> P (ToLower (EntityPath e)) = Some (EntityPath e, g)"
    and i2: "\<And>n p g. P n = Some (p, g) \<Longrightarrow>
        n = ToLower p \<and> (\<exists>e. R (ToLower g) = Some (g, e) \<and> EntityPath e = p)"
    unfolding RegistryInv_def R_def P_def by blast+
  show ?thesis
    unfolding RegistryInv_def R' P'
  proof (intro conjI allI impI)
    fix n g' e
    assume a: "(R(ToLower g \<mapsto> (g, E))) n = Some (g', e)"
    show "n = ToLower g'"
      using a i1 by (auto split: if_splits)
    show "(P(ToLower p \<mapsto> (p, g))) (ToLower (EntityPath e)) = Some (EntityPath e, g')"
    proof (cases "n = ToLower g")
      case True
      with a E show ?thesis by simp
    next
      case False
      with a have r: "R n = Some (g', e)" by simp
      from i1 [OF r] have n: "n = ToLower g'"
        and pe: "P (ToLower (EntityPath e)) = Some (EntityPath e, g')" by simp_all
      have "ToLower (EntityPath e) \<noteq> ToLower p"
      proof
        assume eq: "ToLower (EntityPath e) = ToLower p"
        with pe c2 have "ToLower g' = ToLower g" by auto
        with n False show False by simp
      qed
      with pe show ?thesis by simp
    qed
  next
    fix n p' g'
    assume a: "(P(ToLower p \<mapsto> (p, g))) n = Some (p', g')"
    show "n = ToLower p'"
      using a i2 by (auto split: if_splits)
    show "\<exists>e. (R(ToLower g \<mapsto> (g, E))) (ToLower g') = Some (g', e) \<and> EntityPath e = p'"
    proof (cases "n = ToLower p")
      case True
      with a E show ?thesis by simp
    next
      case False
      with a have q: "P n = Some (p', g')" by simp
      from i2 [OF q] obtain e where n: "n = ToLower p'"
        and re: "R (ToLower g') = Some (g', e)" and ep: "EntityPath e = p'" by blast
      have "ToLower g' \<noteq> ToLower g"
      proof
        assume eq: "ToLower g' = ToLower g"
        with re c1 ep have "ToLower p' = ToLower p" by auto
        with n False show False by simp
      qed
      with re ep show ?thesis by simp
    qed
  qed
qed

lemma RegistryInv_ops: "RegistryInv s \<Longrightarrow> RegistryInv (ApplyRegistryOps s ops)"
  unfolding ApplyRegistryOps_def
proof (induction ops arbitrary: s)
  case Nil
  then show ?case by simp
next
  case (Cons op ops)
  have "RegistryInv (ApplyRegistryOp s op)"
    using Cons.prems by (cases op) (simp_all add: RegistryInv_Register RegistryInv_Clear)
  then show ?case
    using Cons.IH by simp
qed

lemma RegistryInv_TwoWay: "RegistryInv s \<Longrightarrow> RegistryTwoWay s"
  unfolding RegistryInv_def RegistryTwoWay_def TMap_Pairs_def TMap_Find_def ran_def
  by (fastforce)

text \<open>
  C4. The GUID registry is a two-way mapping: after every sequence of \<open>RegisterGUID\<close>
  and \<open>ClearGUIDRegistry\<close> calls from the empty registry, for every pair of a GUID \<open>g\<close>
  and its entry \<open>e\<close> stored in \<open>GUIDRegistry\<close>, \<open>PathToGUIDMap\<close> maps \<open>e.EntityPath\<close>
  back to \<open>g\<close>, and for every pair of a path \<open>p\<close> and a GUID \<open>g\<close> stored in
  \<open>PathToGUIDMap\<close>, \<open>GUIDRegistry\<close> holds \<open>g\<close> with an entry whose \<open>EntityPath\<close> is
  \<open>p\<close>.
\<close>

theorem registry_two_way:
  "RegistryTwoWay (ApplyRegistryOps NewSubsystem ops)"
  by (rule RegistryInv_TwoWay) (rule RegistryInv_ops, rule RegistryInv_New)


lemma ExampleRegistry_maps:
  "GUIDRegistry ExampleRegistry = TMap_Add TMap_Empty (TEXT ''ACT-1'') ExampleEntry"
  "PathToGUIDMap ExampleRegistry = TMap_Add TMap_Empty (TEXT ''/Game/Map.Cube'') (TEXT ''ACT-1'')"
  by (simp_all add: ExampleRegistry_def ExampleOps_def ApplyRegistryOps_def RegisterGUID_def
      NewSubsystem_def TMap_Contains_Empty ExampleEntry_def Let_def TEXT_def MidFrom_def)

theorem registry_two_way_witness:
  "RegistryTwoWay (ApplyRegistryOps NewSubsystem ExampleOps) \<and>
   (TEXT ''ACT-1'', ExampleEntry) \<in> TMap_Pairs (GUIDRegistry (ApplyRegistryOps NewSubsystem ExampleOps)) \<and>
   TMap_Find (PathToGUIDMap (ApplyRegistryOps NewSubsystem ExampleOps)) (TEXT ''/Game/Map.Cube'') =
     Some (TEXT ''ACT-1'')"
proof -
  have tw: "RegistryTwoWay (ApplyRegistryOps NewSubsystem ExampleOps)"
    by (rule registry_two_way)
  have mem: "(TEXT ''ACT-1'', ExampleEntry) \<in>
      TMap_Pairs (GUIDRegistry (ApplyRegistryOps NewSubsystem ExampleOps))"
    using ExampleRegistry_maps(1)
    by (simp add: ExampleRegistry_def TMap_Pairs_Add_fresh TMap_Contains_Empty)
  from tw mem have "TMap_Find (PathToGUIDMap (ApplyRegistryOps NewSubsystem ExampleOps))
      (EntityPath ExampleEntry) = Some (TEXT ''ACT-1'')"
    unfolding RegistryTwoWay_def by blast
  then have "TMap_Find (PathToGUIDMap (ApplyRegistryOps NewSubsystem ExampleOps))
      (TEXT ''/Game/Map.Cube'') = Some (TEXT ''ACT-1'')"
    by (simp add: ExampleEntry_def)
  with tw mem show ?thesis by simp
qed

text \<open>
  C5, as stated: if the given GUID is already registered to a different \<open>EntityPath\<close>,
  or the given \<open>EntityPath\<close> already maps to a different GUID, \<open>RegisterGUID\<close> returns
  false. This fails where the strings differ in case only: with \<open>ACT-1\<close> registered to
  \<open>/Game/Map.Cube\<close>, registering \<open>ACT-1\<close> to the different path \<open>/game/map.cube\<close>
  returns true.
\<close>

theorem RegisterGUID_case_counterexample:
  "RegisterConflict_exact ExampleRegistry (TEXT ''ACT-1'') (TEXT ''/game/map.cube'') \<and>
   fst (RegisterGUID 1 ExampleRegistry (TEXT ''ACT-1'') (TEXT ''/game/map.cube'') (TEXT ''StaticMeshActor'')
     (TEXT ''{}'')) = True"
  by code_simp


text \<open>
  C5, amended: \<open>RegisterGUID\<close> is atomic on failure. For every state, if the given GUID
  is already registered to an \<open>EntityPath\<close> that differs from the given one other than
  in case, or the given \<open>EntityPath\<close> already maps to a GUID that differs from the given
  one other than in case (keys looked up ignoring case), it returns false and leaves
  the subsystem unchanged; otherwise it returns true and afterwards \<open>GUIDRegistry\<close>
  holds an entry for the GUID with the given \<open>EntityPath\<close>, \<open>EntityType\<close> and
  \<open>Metadata\<close>, and \<open>PathToGUIDMap\<close> maps the \<open>EntityPath\<close> to the GUID.
\<close>

theorem RegisterGUID_atomic:
  "(RegisterConflict s g p \<longrightarrow> RegisterGUID now s g p t m = (False, s)) \<and>
   (\<not> RegisterConflict s g p \<longrightarrow>
      fst (RegisterGUID now s g p t m) = True \<and>
      (\<exists>e. TMap_Find (GUIDRegistry (snd (RegisterGUID now s g p t m))) g = Some e \<and>
           EntityPath e = p \<and> EntityType e = t \<and> Metadata e = m) \<and>
      TMap_Find (PathToGUIDMap (snd (RegisterGUID now s g p t m))) p = Some g)"
proof -
  have c: "RegisterConflict s g p \<longleftrightarrow>
      (TMap_Contains (GUIDRegistry s) g \<and>
         FString_ne (EntityPath (TMap_Index (GUIDRegistry s) g)) p) \<or>
      (TMap_Contains (PathToGUIDMap s) p \<and>
         FString_ne (TMap_Index (PathToGUIDMap s) p) g)"
    by (auto simp: RegisterConflict_def TMap_Find_def TMap_Contains_def TMap_Index_def
        split: option.splits)
  show ?thesis
    unfolding c
    by (auto simp: RegisterGUID_def Let_def TMap_Find_Add)
qed

theorem RegisterGUID_atomic_witness:
  "RegisterGUID 1 ExampleRegistry (TEXT ''ACT-1'') (TEXT ''/Game/Map.Sphere'')
     (TEXT ''StaticMeshActor'') (TEXT ''{}'') = (False, ExampleRegistry) \<and>
   fst (RegisterGUID 0 NewSubsystem (TEXT ''ACT-1'') (TEXT ''/Game/Map.Cube'')
     (TEXT ''StaticMeshActor'') (TEXT ''{}'')) = True \<and>
   TMap_Find (PathToGUIDMap (snd (RegisterGUID 0 NewSubsystem (TEXT ''ACT-1'')
     (TEXT ''/Game/Map.Cube'') (TEXT ''StaticMeshActor'') (TEXT ''{}''))))
     (TEXT ''/Game/Map.Cube'') = Some (TEXT ''ACT-1'')"
proof -
  have h1: "RegisterConflict ExampleRegistry (TEXT ''ACT-1'') (TEXT ''/Game/Map.Sphere'')"
    by code_simp
  have h2: "\<not> RegisterConflict NewSubsystem (TEXT ''ACT-1'') (TEXT ''/Game/Map.Cube'')"
    by code_simp
  from h1 RegisterGUID_atomic [where s = ExampleRegistry and g = "TEXT ''ACT-1''"
      and p = "TEXT ''/Game/Map.Sphere''" and now = 1 and t = "TEXT ''StaticMeshActor''"
      and m = "TEXT ''{}''"]
  have f: "RegisterGUID 1 ExampleRegistry (TEXT ''ACT-1'') (TEXT ''/Game/Map.Sphere'')
     (TEXT ''StaticMeshActor'') (TEXT ''{}'') = (False, ExampleRegistry)"
    by blast
  from h2 RegisterGUID_atomic [where s = NewSubsystem and g = "TEXT ''ACT-1''"
      and p = "TEXT ''/Game/Map.Cube''" and now = 0 and t = "TEXT ''StaticMeshActor''"
      and m = "TEXT ''{}''"]
  have "fst (RegisterGUID 0 NewSubsystem (TEXT ''ACT-1'') (TEXT ''/Game/Map.Cube'')
     (TEXT ''StaticMeshActor'') (TEXT ''{}'')) = True \<and>
   TMap_Find (PathToGUIDMap (snd (RegisterGUID 0 NewSubsystem (TEXT ''ACT-1'')
     (TEXT ''/Game/Map.Cube'') (TEXT ''StaticMeshActor'') (TEXT ''{}''))))
     (TEXT ''/Game/Map.Cube'') = Some (TEXT ''ACT-1'')"
    by blast
  with f show ?thesis by blast
qed

subsection \<open>Snapshot store\<close>

lemma Storage_Store:
  "SnapshotStorage (snd (StoreSnapshot s i d)) = (SnapshotStorage s)(ToLower i \<mapsto> (i, d))"
  by (simp add: StoreSnapshot_def TMap_Add_def)

lemma Storage_Delete:
  "SnapshotStorage (snd (DeleteSnapshot s i)) = (SnapshotStorage s)(ToLower i := None)"
proof (cases "SnapshotStorage s (ToLower i)")
  case None
  then have "(SnapshotStorage s)(ToLower i := None) = SnapshotStorage s"
    by (simp add: fun_upd_idem)
  with None show ?thesis
    by (simp add: DeleteSnapshot_def TMap_Remove_def TMap_Contains_def)
next
  case (Some a)
  then show ?thesis
    by (simp add: DeleteSnapshot_def TMap_Remove_def TMap_Contains_def)
qed

lemma Storage_ops_other:
  "\<forall>op \<in> set ops. ToLower (SnapshotOpId op) \<noteq> k \<Longrightarrow>
     SnapshotStorage (ApplySnapshotOps s ops) k = SnapshotStorage s k"
  unfolding ApplySnapshotOps_def
proof (induction ops arbitrary: s)
  case Nil
  then show ?case by simp
next
  case (Cons op ops)
  then have "SnapshotStorage (ApplySnapshotOp s op) k = SnapshotStorage s k"
    by (cases op) (auto simp: Storage_Store Storage_Delete)
  with Cons show ?case by simp
qed

lemma Storage_ops_no_store:
  "\<forall>op \<in> set ops. IsStore op \<longrightarrow> ToLower (SnapshotOpId op) \<noteq> k \<Longrightarrow>
     SnapshotStorage s k = None \<Longrightarrow>
     SnapshotStorage (ApplySnapshotOps s ops) k = None"
  unfolding ApplySnapshotOps_def
proof (induction ops arbitrary: s)
  case Nil
  then show ?case by simp
next
  case (Cons op ops)
  then have "SnapshotStorage (ApplySnapshotOp s op) k = None"
    by (cases op) (auto simp: Storage_Store Storage_Delete)
  with Cons show ?case by simp
qed

lemma Load_raw:
  "fst (LoadSnapshot s i) =
     (case SnapshotStorage s (ToLower i) of Some (k, d) \<Rightarrow> d | None \<Rightarrow> TEXT [])"
  by (simp add: LoadSnapshot_def TMap_Find_def split: option.splits)

text \<open>
  C6, as stated: \<open>LoadSnapshot(id)\<close> returns the empty string for every id that was
  never stored. This fails where ids differ in case only: after
  \<open>StoreSnapshot("Snap", "data")\<close> alone, the id \<open>"SNAP"\<close> was never stored, yet
  \<open>LoadSnapshot("SNAP")\<close> returns \<open>"data"\<close>.
\<close>

theorem snapshot_id_case_counterexample:
  "TEXT ''Snap'' \<noteq> TEXT ''SNAP'' \<and>
   fst (LoadSnapshot
          (ApplySnapshotOps NewSubsystem [OpStoreSnapshot (TEXT ''Snap'') (TEXT ''data'')])
          (TEXT ''SNAP'')) = TEXT ''data'' \<and>
   TEXT ''data'' \<noteq> TEXT []"
  by code_simp


text \<open>
  C6, amended: the snapshot store round-trips, with ids compared ignoring case.
  \<open>StoreSnapshot(id, data)\<close> always returns true, and after it, with no later
  \<open>StoreSnapshot\<close> or \<open>DeleteSnapshot\<close> for an id equal to \<open>id\<close> up to case,
  \<open>LoadSnapshot\<close> of \<open>id\<close> (in any case) returns exactly \<open>data\<close>; for every id such
  that no id equal to it up to case was ever stored, or such that a successful
  \<open>DeleteSnapshot(id)\<close> was followed by no such store, \<open>LoadSnapshot(id)\<close> returns the
  empty string.
\<close>

theorem snapshot_store_roundtrip:
  "fst (StoreSnapshot s i d) = True \<and>
   (FString_eq i' i \<and> (\<forall>op \<in> set ops. FString_ne (SnapshotOpId op) i) \<longrightarrow>
      fst (LoadSnapshot (ApplySnapshotOps (snd (StoreSnapshot s i d)) ops) i') = d) \<and>
   ((\<forall>op \<in> set ops. IsStore op \<longrightarrow> FString_ne (SnapshotOpId op) i) \<longrightarrow>
      fst (LoadSnapshot (ApplySnapshotOps NewSubsystem ops) i) = TEXT []) \<and>
   (fst (DeleteSnapshot s i) = True \<and>
    (\<forall>op \<in> set ops. IsStore op \<longrightarrow> FString_ne (SnapshotOpId op) i) \<longrightarrow>
      fst (LoadSnapshot (ApplySnapshotOps (snd (DeleteSnapshot s i)) ops) i) = TEXT [])"
proof (intro conjI impI)
  show "fst (StoreSnapshot s i d) = True"
    by (simp add: StoreSnapshot_def)
next
  assume a: "FString_eq i' i \<and> (\<forall>op \<in> set ops. FString_ne (SnapshotOpId op) i)"
  then have k: "ToLower i' = ToLower i"
    and o: "\<forall>op \<in> set ops. ToLower (SnapshotOpId op) \<noteq> ToLower i"
    by (simp_all add: FString_eq_def FString_ne_def)
  show "fst (LoadSnapshot (ApplySnapshotOps (snd (StoreSnapshot s i d)) ops) i') = d"
    by (simp add: Load_raw k Storage_ops_other [OF o] Storage_Store)
next
  assume "\<forall>op \<in> set ops. IsStore op \<longrightarrow> FString_ne (SnapshotOpId op) i"
  then have o: "\<forall>op \<in> set ops. IsStore op \<longrightarrow> ToLower (SnapshotOpId op) \<noteq> ToLower i"
    by (simp add: FString_eq_def FString_ne_def)
  have "SnapshotStorage NewSubsystem (ToLower i) = None"
    by (simp add: NewSubsystem_def TMap_Empty_def)
  from Storage_ops_no_store [OF o this]
  show "fst (LoadSnapshot (ApplySnapshotOps NewSubsystem ops) i) = TEXT []"
    by (simp add: Load_raw)
next
  assume "fst (DeleteSnapshot s i) = True \<and>
    (\<forall>op \<in> set ops. IsStore op \<longrightarrow> FString_ne (SnapshotOpId op) i)"
  then have o: "\<forall>op \<in> set ops. IsStore op \<longrightarrow> ToLower (SnapshotOpId op) \<noteq> ToLower i"
    by (simp add: FString_eq_def FString_ne_def)
  have "SnapshotStorage (snd (DeleteSnapshot s i)) (ToLower i) = None"
    by (simp add: Storage_Delete)
  from Storage_ops_no_store [OF o this]
  show "fst (LoadSnapshot (ApplySnapshotOps (snd (DeleteSnapshot s i)) ops) i) = TEXT []"
    by (simp add: Load_raw)
qed

theorem snapshot_store_roundtrip_witness:
  "fst (LoadSnapshot
          (ApplySnapshotOps (snd (StoreSnapshot NewSubsystem (TEXT ''Snap'') (TEXT ''data'')))
             [OpStoreSnapshot (TEXT ''Other'') (TEXT ''x''), OpDeleteSnapshot (TEXT ''Other'')])
          (TEXT ''SNAP'')) = TEXT ''data'' \<and>
   fst (LoadSnapshot
          (ApplySnapshotOps NewSubsystem
             [OpStoreSnapshot (TEXT ''Other'') (TEXT ''x''), OpDeleteSnapshot (TEXT ''Snap'')])
          (TEXT ''Snap'')) = TEXT [] \<and>
   fst (LoadSnapshot
          (ApplySnapshotOps
             (snd (DeleteSnapshot (snd (StoreSnapshot NewSubsystem (TEXT ''Snap'') (TEXT ''data'')))
                (TEXT ''snap'')))
             [OpStoreSnapshot (TEXT ''Other'') (TEXT ''x'')])
          (TEXT ''snap'')) = TEXT []"
proof -
  have h1: "FString_eq (TEXT ''SNAP'') (TEXT ''Snap'') \<and>
      (\<forall>op \<in> set [OpStoreSnapshot (TEXT ''Other'') (TEXT ''x''), OpDeleteSnapshot (TEXT ''Other'')].
         FString_ne (SnapshotOpId op) (TEXT ''Snap''))"
    by code_simp
  have h2: "\<forall>op \<in> set [OpStoreSnapshot (TEXT ''Other'') (TEXT ''x''), OpDeleteSnapshot (TEXT ''Snap'')].
         IsStore op \<longrightarrow> FString_ne (SnapshotOpId op) (TEXT ''Snap'')"
    by code_simp
  have h3: "fst (DeleteSnapshot (snd (StoreSnapshot NewSubsystem (TEXT ''Snap'') (TEXT ''data'')))
                (TEXT ''snap'')) = True \<and>
      (\<forall>op \<in> set [OpStoreSnapshot (TEXT ''Other'') (TEXT ''x'')].
         IsStore op \<longrightarrow> FString_ne (SnapshotOpId op) (TEXT ''snap''))"
    by code_simp
  from h1 snapshot_store_roundtrip [where s = NewSubsystem and i = "TEXT ''Snap''"
      and d = "TEXT ''data''" and i' = "TEXT ''SNAP''"
      and ops = "[OpStoreSnapshot (TEXT ''Other'') (TEXT ''x''), OpDeleteSnapshot (TEXT ''Other'')]"]
  have c1: "fst (LoadSnapshot
          (ApplySnapshotOps (snd (StoreSnapshot NewSubsystem (TEXT ''Snap'') (TEXT ''data'')))
             [OpStoreSnapshot (TEXT ''Other'') (TEXT ''x''), OpDeleteSnapshot (TEXT ''Other'')])
          (TEXT ''SNAP'')) = TEXT ''data''"
    by blast
  from h2 snapshot_store_roundtrip [where i = "TEXT ''Snap''"
      and ops = "[OpStoreSnapshot (TEXT ''Other'') (TEXT ''x''), OpDeleteSnapshot (TEXT ''Snap'')]"]
  have c2: "fst (LoadSnapshot
          (ApplySnapshotOps NewSubsystem
             [OpStoreSnapshot (TEXT ''Other'') (TEXT ''x''), OpDeleteSnapshot (TEXT ''Snap'')])
          (TEXT ''Snap'')) = TEXT []"
    by blast
  from h3 snapshot_store_roundtrip [where i = "TEXT ''snap''"
      and s = "snd (StoreSnapshot NewSubsystem (TEXT ''Snap'') (TEXT ''data''))"
      and ops = "[OpStoreSnapshot (TEXT ''Other'') (TEXT ''x'')]"]
  have c3: "fst (LoadSnapshot
          (ApplySnapshotOps
             (snd (DeleteSnapshot (snd (StoreSnapshot NewSubsystem (TEXT ''Snap'') (TEXT ''data'')))
                (TEXT ''snap'')))
             [OpStoreSnapshot (TEXT ''Other'') (TEXT ''x'')])
          (TEXT ''snap'')) = TEXT []"
    by blast
  from c1 c2 c3 show ?thesis by blast
qed

end
